theory Spec2Isabelle
  imports Main "HOL-Library.AList" "HOL-Library.Sublist"
begin

section \<open>The interactive table hint button of google.colab\<close>

text \<open>
  A shallow embedding of \<^verbatim>\<open>google/colab/_interactive_table_hint_button.py\<close>.
  The module keeps four dictionaries, calls into IPython, pandas and two sibling modules
  (\<^verbatim>\<open>google.colab.output\<close>, \<^verbatim>\<open>google.colab.data_table\<close>), and builds HTML with
  \<^verbatim>\<open>str.format\<close>. The dictionaries and what the module reads and writes outside itself
  are the fields of one state record; every function of the module takes the state and
  returns its result together with the state it leaves.
\<close>

subsection \<open>Objects the module handles\<close>

text \<open>
  A pandas dataframe is an object: \<open>DataFrame i r\<close> is the object with identity \<open>i\<close>
  whose \<^verbatim>\<open>_repr_html_()\<close> returns \<open>r\<close>: \<open>Some h\<close> for the HTML string \<open>h\<close>, and \<open>None\<close> for
  Python's None, which pandas returns when its option \<^verbatim>\<open>display.notebook_repr_html\<close> is off.
  \<open>Shallow_Copy d\<close> is the new object that \<^verbatim>\<open>d.copy(deep=False)\<close> returns. A copy is never
  the object it was copied from, and it shares that object's data, so it renders the same.
\<close>

datatype dataframe = DataFrame nat "string option" | Shallow_Copy dataframe

fun repr_html :: "dataframe \<Rightarrow> string option" where
  "repr_html (DataFrame i r) = r"
| "repr_html (Shallow_Copy d) = repr_html d"

definition copy_shallow :: "dataframe \<Rightarrow> dataframe" where
  "copy_shallow d = Shallow_Copy d"

text \<open>
  Modelled from the spec: \<^verbatim>\<open>google.colab.data_table.DataTable\<close> is declared in a sibling
  module that is not among the sources. The spec calls it the interactive rendering of a
  table; here it is the constructor that wraps the dataframe it is given.
\<close>

datatype data_table = DataTable dataframe

text \<open>
  The functions that are passed around as values: the callback handed to
  \<^verbatim>\<open>register_callback\<close>, and the formatters of IPython's registry (the module's own, or
  any other callable, told apart by a number).
\<close>

datatype callback = Convert_To_Interactive

datatype formatter = Df_Formatter_With_Interactive_Hint | Other_Formatter nat

subsection \<open>Python's \<^verbatim>\<open>str.format\<close>\<close>

text \<open>
  The templates of the module use replacement fields that are plain keyword names, and
  doubled braces for literal braces. \<open>format_scan\<close> reads a template from left to right:
  in text (\<open>None\<close>) it copies characters, turns \<^verbatim>\<open>{{\<close> and \<^verbatim>\<open>}}\<close> into one brace and
  opens a field at a single \<^verbatim>\<open>{\<close>; in a field (\<open>Some name\<close>) it collects the name up to
  \<^verbatim>\<open>}\<close> and emits the keyword argument of that name. Substituted text is not scanned
  again. A missing keyword raises KeyError, a brace out of place ValueError.
\<close>

datatype format_error = KeyError string | ValueError

definition emit :: "string \<Rightarrow> format_error + string \<Rightarrow> format_error + string" where
  "emit v r = (case r of Inl e \<Rightarrow> Inl e | Inr out \<Rightarrow> Inr (v @ out))"

fun format_scan :: "(string \<times> string) list \<Rightarrow> string option \<Rightarrow> string \<Rightarrow> format_error + string" where
  "format_scan kw None [] = Inr []"
| "format_scan kw None (c # cs) =
     (if c = CHR ''{'' then
        (case cs of
           [] \<Rightarrow> Inl ValueError
         | d # ds \<Rightarrow>
             if d = CHR ''{'' then emit [CHR ''{''] (format_scan kw None ds)
             else format_scan kw (Some []) cs)
      else if c = CHR ''}'' then
        (case cs of
           [] \<Rightarrow> Inl ValueError
         | d # ds \<Rightarrow>
             if d = CHR ''}'' then emit [CHR ''}''] (format_scan kw None ds)
             else Inl ValueError)
      else emit [c] (format_scan kw None cs))"
| "format_scan kw (Some name) [] = Inl ValueError"
| "format_scan kw (Some name) (c # cs) =
     (if c = CHR ''}'' then
        (case map_of kw name of
           None \<Rightarrow> Inl (KeyError name)
         | Some v \<Rightarrow> emit v (format_scan kw None cs))
      else if c = CHR ''{'' then Inl ValueError
      else format_scan kw (Some (name @ [c])) cs)"

definition str_format :: "string \<Rightarrow> (string \<times> string) list \<Rightarrow> format_error + string" where
  "str_format template kw = format_scan kw None template"

text \<open>
  What \<^verbatim>\<open>str.format\<close> writes for a keyword argument that is a string or None: the string
  itself, or the text \<^verbatim>\<open>None\<close>.
\<close>

definition format_value :: "string option \<Rightarrow> string" where
  "format_value v = (case v of None \<Rightarrow> ''None'' | Some h \<Rightarrow> h)"

text \<open>\<^verbatim>\<open>sep.join(strings)\<close>.\<close>

fun str_join :: "string \<Rightarrow> string list \<Rightarrow> string" where
  "str_join sep [] = []"
| "str_join sep [x] = x"
| "str_join sep (x # y # ys) = x @ sep @ str_join sep (y # ys)"

subsection \<open>The module's string constants\<close>

definition ICON_SVG :: string where
  \<open>ICON_SVG =
   ''
  <svg xmlns="http://www.w3.org/2000/svg" height="24px" viewBox="0 -960 960 960">
    <path d="M120-120v-720h720v720H120Zm60-500h600v-160H180v160Zm220 220h160v-160H400v160Zm0 220h160v-160H400v160ZM180-400h160v-160H180v160Zm440 0h160v-160H620v160ZM180-180h160v-160H180v160Zm440 0h160v-160H620v160Z"/>
  </svg>''\<close>

definition HINT_BUTTON_CSS :: string where
  \<open>HINT_BUTTON_CSS =
   ''
  <style>
    .colab-df-container {
      display:flex;
      gap: 12px;
    }

    .colab-df-convert {
      background-color: #E8F0FE;
      border: none;
      border-radius: 50%;
      cursor: pointer;
      display: none;
      fill: #1967D2;
      height: 32px;
      padding: 0 0 0 0;
      width: 32px;
    }

    .colab-df-convert:hover {
      background-color: #E2EBFA;
      box-shadow: 0px 1px 2px rgba(60, 64, 67, 0.3), 0px 1px 3px 1px rgba(60, 64, 67, 0.15);
      fill: #174EA6;
    }

    .colab-df-buttons div {
      margin-bottom: 4px;
    }

    [theme=dark] .colab-df-convert {
      background-color: #3B4455;
      fill: #D2E3FC;
    }

    [theme=dark] .colab-df-convert:hover {
      background-color: #434B5C;
      box-shadow: 0px 1px 3px 1px rgba(0, 0, 0, 0.15);
      filter: drop-shadow(0px 1px 2px rgba(0, 0, 0, 0.3));
      fill: #FFFFFF;
    }
  </style>
''\<close>

definition button_html_template :: string where
  \<open>button_html_template =
   ''
  <div class="colab-df-container">
    <button class="colab-df-convert" onclick="convertToInteractive('{key}')"
            title="Convert this dataframe to an interactive table."
            style="display:none;">
      {icon}
    </button>
    {css}
    <script>
      const buttonEl =
        document.querySelector('#{key} button.colab-df-convert');
      buttonEl.style.display =
        google.colab.kernel.accessAllowed ? 'block' : 'none';

      async function convertToInteractive(key) {{
        const element = document.querySelector('#{key}');
        const dataTable =
          await google.colab.kernel.invokeFunction('convertToInteractive',
                                                    [key], {{}});
        if (!dataTable) return;

        const docLinkHtml = 'Like what you see? Visit the ' +
          '<a target="_blank" href={data_table_url}>data table notebook</a>'
          + ' to learn more about interactive tables.';
        element.innerHTML = '' @
   [CHR 0x27, CHR 0x27] @
   '';
        dataTable['output_type'] = 'display_data';
        await google.colab.output.renderOutput(dataTable, element);
        const docLink = document.createElement('div');
        docLink.innerHTML = docLinkHtml;
        element.appendChild(docLink);
      }}
    </script>
  </div>
  ''\<close>

definition html_template :: string where
  \<open>html_template =
   ''
  <div id="{key}" class="colab-df-container">
    {df_html}
    <div class="colab-df-buttons">
      {buttons_str}
    </div>
  </div>
  ''\<close>

definition no_reference_message :: string where
  \<open>no_reference_message =
   ''Error: Runtime no longer has a reference to this dataframe, please re-run this cell and try again.''\<close>

subsection \<open>The formatter registry of the IPython shell\<close>

text \<open>
  IPython is a library, not part of the sources. Of the shell that
  \<^verbatim>\<open>IPython.get_ipython()\<close> returns the module uses one object,
  \<^verbatim>\<open>shell.display_formatter.formatters['text/html']\<close>, and two of its methods. The registry
  is modelled by what those methods promise: it maps the dotted name of a type to the
  function registered for it; \<^verbatim>\<open>for_type_by_name(module, name, func)\<close> returns the function
  registered so far (None when there is none) and registers \<open>func\<close> unless it is None;
  \<^verbatim>\<open>pop(typ, None)\<close> removes what is registered for \<open>typ\<close> and returns it.
\<close>

type_synonym type_printers = "string \<rightharpoonup> formatter"

record interactive_shell =
  text_html :: type_printers

definition for_type_by_name ::
  "string \<Rightarrow> string \<Rightarrow> formatter option \<Rightarrow> type_printers \<Rightarrow> formatter option \<times> type_printers" where
  "for_type_by_name type_module type_name func printers =
     (let key = type_module @ ''.'' @ type_name
      in (printers key, case func of None \<Rightarrow> printers | Some f \<Rightarrow> printers(key \<mapsto> f)))"

definition printers_pop :: "string \<Rightarrow> type_printers \<Rightarrow> formatter option \<times> type_printers" where
  "printers_pop typ printers = (printers typ, printers(typ := None))"

subsection \<open>The state of the module\<close>

text \<open>
  The four module-level dictionaries are association lists in insertion order, as Python
  dictionaries are: \<open>map_of d k\<close> is the lookup, \<open>AList.update k v d\<close> is \<^verbatim>\<open>d[k] = v\<close> and
  \<open>AList.delete k d\<close> is what \<^verbatim>\<open>d.pop(k)\<close> leaves. \<open>original_formatters\<close> holds values that
  may be Python's None, so its values are options. The last three fields are what the
  module touches outside itself: the shell that \<^verbatim>\<open>get_ipython()\<close> returns (None outside
  IPython), the callbacks registered with \<^verbatim>\<open>google.colab.output\<close>, and what was printed.
\<close>

record module_state =
  noninteractive_df_refs :: "(string \<times> dataframe) list"
  last_noninteractive_df :: "(string \<times> dataframe) list"
  output_callbacks :: "(string \<times> unit) list"
  original_formatters :: "(string \<times> formatter option) list"
  ipython :: "interactive_shell option"
  registered_callbacks :: "(string \<times> callback) list"
  stdout :: "string list"

text \<open>The state when the module has just been imported.\<close>

definition initial_state :: "interactive_shell option \<Rightarrow> module_state" where
  "initial_state shell =
     \<lparr>noninteractive_df_refs = [], last_noninteractive_df = [], output_callbacks = [],
      original_formatters = [], ipython = shell, registered_callbacks = [], stdout = []\<rparr>"

text \<open>
  \<open>noninteractive_df_refs\<close> is a \<^verbatim>\<open>WeakValueDictionary\<close>: the runtime drops an entry when
  the object it refers to is reclaimed. \<open>gc_collect dead\<close> is that step of the runtime, for
  the objects \<open>dead\<close> it reclaims; it may happen between any two calls.
\<close>

definition gc_collect :: "dataframe list \<Rightarrow> module_state \<Rightarrow> module_state" where
  "gc_collect dead s =
     s\<lparr>noninteractive_df_refs := filter (\<lambda>(k, d). d \<notin> set dead) (noninteractive_df_refs s)\<rparr>"

subsection \<open>Retrieving a stored dataframe\<close>

definition get_dataframe :: "string \<Rightarrow> module_state \<Rightarrow> dataframe option \<times> module_state" where
  "get_dataframe key s =
     (case map_of (last_noninteractive_df s) key of
        Some df \<Rightarrow>
          (Some df, s\<lparr>last_noninteractive_df := AList.delete key (last_noninteractive_df s)\<rparr>)
      | None \<Rightarrow>
          (case map_of (noninteractive_df_refs s) key of
             Some df \<Rightarrow>
               (Some df, s\<lparr>noninteractive_df_refs := AList.delete key (noninteractive_df_refs s)\<rparr>)
           | None \<Rightarrow> (None, s\<lparr>stdout := stdout s @ [no_reference_message]\<rparr>)))"

definition convert_to_interactive :: "string \<Rightarrow> module_state \<Rightarrow> data_table option \<times> module_state" where
  "convert_to_interactive key s =
     (case get_dataframe key s of
        (Some df, s') \<Rightarrow> (Some (DataTable df), s')
      | (None, s') \<Rightarrow> (None, s'))"

definition get_last_dataframe_key :: "module_state \<Rightarrow> string option" where
  "get_last_dataframe_key s =
     (let df_keys = map fst (last_noninteractive_df s)
      in case df_keys of [] \<Rightarrow> None | k # ks \<Rightarrow> Some k)"

subsection \<open>Formatting a dataframe with the hint button\<close>

text \<open>
  Modelled from the spec: \<^verbatim>\<open>google.colab.output.register_callback\<close> is not among the
  sources. The spec has the emitted JavaScript "invoke a registered callback": registering
  binds the name to the callback in the host's table, and returns nothing.
\<close>

definition register_callback :: "string \<Rightarrow> callback \<Rightarrow> module_state \<Rightarrow> unit \<times> module_state" where
  "register_callback function_name cb s =
     ((), s\<lparr>registered_callbacks := AList.update function_name cb (registered_callbacks s)\<rparr>)"

text \<open>
  \<^verbatim>\<open>_data_table._DATA_TABLE_HELP_URL\<close> is a constant of a sibling module; it is the
  parameter \<open>data_table_url\<close> here.
\<close>

definition get_button_html :: "string \<Rightarrow> string \<Rightarrow> format_error + string" where
  "get_button_html data_table_url key =
     str_format button_html_template
       [(''css'', HINT_BUTTON_CSS), (''data_table_url'', data_table_url),
        (''icon'', ICON_SVG), (''key'', key)]"

definition get_html :: "dataframe \<Rightarrow> string \<Rightarrow> string list \<Rightarrow> format_error + string" where
  "get_html dataframe key buttons =
     (let buttons_str = str_join [CHR 0x0A] buttons
      in str_format html_template
           [(''key'', key), (''df_html'', format_value (repr_html dataframe)), (''buttons_str'', buttons_str)])"

text \<open>
  The random \<^verbatim>\<open>str(uuid.uuid4())\<close> is the argument \<open>uuid4\<close>. The result is the returned
  HTML together with the list \<open>buttons\<close> as the call leaves it (the caller's list, when a
  non-empty one was passed, has the hint button inserted in place), or the exception of
  \<^verbatim>\<open>format\<close>; the state is the one the call leaves in either case.
\<close>

definition df_formatter_with_interactive_hint ::
  "string \<Rightarrow> string \<Rightarrow> dataframe \<Rightarrow> string list option \<Rightarrow> module_state
     \<Rightarrow> (format_error + string \<times> string list) \<times> module_state" where
  "df_formatter_with_interactive_hint data_table_url uuid4 dataframe buttons s =
     (let key = ''df-'' @ uuid4;
          s1 = s\<lparr>noninteractive_df_refs := AList.update key dataframe (noninteractive_df_refs s)\<rparr>;
          s2 = s1\<lparr>last_noninteractive_df := []\<rparr>;
          s3 = s2\<lparr>last_noninteractive_df :=
                    AList.update key (copy_shallow dataframe) (last_noninteractive_df s2)\<rparr>;
          convert_func = ''convertToInteractive'';
          s4 = (if map_of (output_callbacks s3) convert_func = None
                then (let (r, s') = register_callback convert_func Convert_To_Interactive s3
                      in s'\<lparr>output_callbacks := AList.update convert_func r (output_callbacks s')\<rparr>)
                else s3);
          buttons1 = (case buttons of None \<Rightarrow> [] | Some bs \<Rightarrow> if bs = [] then [] else bs)
      in case get_button_html data_table_url key of
           Inl e \<Rightarrow> (Inl e, s4)
         | Inr button \<Rightarrow>
             (let buttons2 = button # buttons1
              in case get_html dataframe key buttons2 of
                   Inl e \<Rightarrow> (Inl e, s4)
                 | Inr html \<Rightarrow> (Inr (html, buttons2), s4)))"

subsection \<open>Enabling and disabling the formatter\<close>

definition enable_df_interactive_hint_formatter :: "module_state \<Rightarrow> module_state" where
  "enable_df_interactive_hint_formatter s =
     (case ipython s of
        None \<Rightarrow> s
      | Some shell \<Rightarrow>
          (let key = ''text/html''
           in if map_of (original_formatters s) key = None
              then (let (old, printers) =
                          for_type_by_name ''pandas.core.frame'' ''DataFrame''
                            (Some Df_Formatter_With_Interactive_Hint) (text_html shell)
                    in s\<lparr>original_formatters := AList.update key old (original_formatters s),
                         ipython := Some (shell\<lparr>text_html := printers\<rparr>)\<rparr>)
              else s))"

definition disable_df_interactive_hint_formatter :: "module_state \<Rightarrow> module_state" where
  "disable_df_interactive_hint_formatter s =
     (case ipython s of
        None \<Rightarrow> s
      | Some shell \<Rightarrow>
          (let key = ''text/html''
           in case map_of (original_formatters s) key of
                None \<Rightarrow> s
              | Some saved \<Rightarrow>
                  (let (popped, printers1) =
                         printers_pop ''pandas.core.frame.DataFrame'' (text_html shell);
                       (old, printers2) =
                         for_type_by_name ''pandas.core.frame'' ''DataFrame'' saved printers1
                   in s\<lparr>original_formatters := AList.delete key (original_formatters s),
                        ipython := Some (shell\<lparr>text_html := printers2\<rparr>)\<rparr>)))"

subsection \<open>Sequences of calls\<close>

text \<open>
  What can happen to the state: a call of one of the module's functions, or a step of the
  runtime's garbage collector. \<open>step\<close> is the state a call leaves, \<open>run\<close> the state a
  sequence of calls leaves.
\<close>

datatype operation =
    Format string dataframe "string list option"
  | Get_Dataframe string
  | Convert string
  | Get_Last_Key
  | Enable
  | Disable
  | Collect "dataframe list"

fun step :: "string \<Rightarrow> operation \<Rightarrow> module_state \<Rightarrow> module_state" where
  "step url (Format uuid4 df buttons) s = snd (df_formatter_with_interactive_hint url uuid4 df buttons s)"
| "step url (Get_Dataframe key) s = snd (get_dataframe key s)"
| "step url (Convert key) s = snd (convert_to_interactive key s)"
| "step url Get_Last_Key s = s"
| "step url Enable s = enable_df_interactive_hint_formatter s"
| "step url Disable s = disable_df_interactive_hint_formatter s"
| "step url (Collect dead) s = gc_collect dead s"

fun run :: "string \<Rightarrow> operation list \<Rightarrow> module_state \<Rightarrow> module_state" where
  "run url [] s = s"
| "run url (x # xs) s = run url xs (step url x s)"

subsection \<open>Counting retrievals, and the key the spec expects\<close>

text \<open>
  \<open>is_format x\<close>: the call \<open>x\<close> is a call of the formatter; \<open>is_retrieval x\<close>: it is a call of
  \<open>get_dataframe\<close> or of \<open>convert_to_interactive\<close>.
  \<open>succeeds key x s\<close>: the call \<open>x\<close>, made in state \<open>s\<close>, is a retrieval of \<open>key\<close> that
  returns a dataframe. \<open>retrievals url key xs s\<close> counts the calls of \<open>xs\<close> that do so when
  \<open>xs\<close> runs from \<open>s\<close>. \<open>holders key s\<close> is the number of caches that hold \<open>key\<close>.
\<close>

fun is_format :: "operation \<Rightarrow> bool" where
  "is_format (Format u df buttons) = True"
| "is_format x = False"

fun is_retrieval :: "operation \<Rightarrow> bool" where
  "is_retrieval (Get_Dataframe k) = True"
| "is_retrieval (Convert k) = True"
| "is_retrieval x = False"

fun succeeds :: "string \<Rightarrow> operation \<Rightarrow> module_state \<Rightarrow> bool" where
  "succeeds key (Get_Dataframe k) s = (k = key \<and> fst (get_dataframe k s) \<noteq> None)"
| "succeeds key (Convert k) s = (k = key \<and> fst (convert_to_interactive k s) \<noteq> None)"
| "succeeds key x s = False"

fun retrievals :: "string \<Rightarrow> string \<Rightarrow> operation list \<Rightarrow> module_state \<Rightarrow> nat" where
  "retrievals url key [] s = 0"
| "retrievals url key (x # xs) s =
     (if succeeds key x s then 1 else 0) + retrievals url key xs (step url x s)"

definition holders :: "string \<Rightarrow> module_state \<Rightarrow> nat" where
  "holders key s =
     (if map_of (last_noninteractive_df s) key = None then 0 else 1) +
     (if map_of (noninteractive_df_refs s) key = None then 0 else 1)"

text \<open>
  \<open>last_formatted_key\<close> follows the words of the spec, not the code: after a sequence of
  calls it is the key of the most recently formatted dataframe, and None when no dataframe
  has been formatted yet or the last one has been retrieved since.
\<close>

fun track_last :: "string option \<Rightarrow> operation \<Rightarrow> string option" where
  "track_last cur (Format u df buttons) = Some (''df-'' @ u)"
| "track_last cur (Get_Dataframe k) = (if cur = Some k then None else cur)"
| "track_last cur (Convert k) = (if cur = Some k then None else cur)"
| "track_last cur Get_Last_Key = cur"
| "track_last cur Enable = cur"
| "track_last cur Disable = cur"
| "track_last cur (Collect dead) = cur"

definition last_formatted_key :: "operation list \<Rightarrow> string option" where
  "last_formatted_key xs = foldl track_last None xs"

subsection \<open>Example states\<close>

text \<open>A state in which both caches hold the key \<open>df-1\<close>, as after one call of the formatter.\<close>

definition two_cache_state :: module_state where
  "two_cache_state =
     (initial_state None)
       \<lparr>noninteractive_df_refs := [(''df-1'', DataFrame 0 (Some ''<table/>''))],
        last_noninteractive_df := [(''df-1'', Shallow_Copy (DataFrame 0 (Some ''<table/>'')))]\<rparr>"

text \<open>A shell with a formatter registered for dataframes, and one with none.\<close>

definition shell_with_formatter :: interactive_shell where
  "shell_with_formatter =
     \<lparr>text_html = [''pandas.core.frame.DataFrame'' \<mapsto> Other_Formatter 7,
                    ''builtins.int'' \<mapsto> Other_Formatter 8]\<rparr>"

text \<open>The state that enabling the hint formatter in \<open>shell_with_formatter\<close> leaves.\<close>

definition enabled_state :: module_state where
  "enabled_state =
     (initial_state
        (Some \<lparr>text_html =
           [''pandas.core.frame.DataFrame'' \<mapsto> Df_Formatter_With_Interactive_Hint,
            ''builtins.int'' \<mapsto> Other_Formatter 8]\<rparr>))
       \<lparr>original_formatters := [(''text/html'', Some (Other_Formatter 7))]\<rparr>"


section \<open>Properties\<close>

subsection \<open>Evaluating \<^verbatim>\<open>str.format\<close> on the templates\<close>

text \<open>
  The equations of \<open>format_scan\<close>, one per kind of step, so that a template is rewritten
  character by character.
\<close>

lemma emit_Inr: "emit v (Inr out) = Inr (v @ out)"
  by (simp add: emit_def)

lemma scan_text:
  "c \<noteq> CHR ''{'' \<Longrightarrow> c \<noteq> CHR ''}'' \<Longrightarrow>
   format_scan kw None (c # cs) = emit [c] (format_scan kw None cs)"
  by simp

lemma scan_open2:
  "format_scan kw None (CHR ''{'' # CHR ''{'' # cs) = emit [CHR ''{''] (format_scan kw None cs)"
  by simp

lemma scan_close2:
  "format_scan kw None (CHR ''}'' # CHR ''}'' # cs) = emit [CHR ''}''] (format_scan kw None cs)"
  by simp

lemma scan_open:
  "d \<noteq> CHR ''{'' \<Longrightarrow>
   format_scan kw None (CHR ''{'' # d # cs) = format_scan kw (Some []) (d # cs)"
  by simp

lemma scan_name:
  "c \<noteq> CHR ''{'' \<Longrightarrow> c \<noteq> CHR ''}'' \<Longrightarrow>
   format_scan kw (Some n) (c # cs) = format_scan kw (Some (n @ [c])) cs"
  by simp

lemma scan_close:
  "format_scan kw (Some n) (CHR ''}'' # cs) =
     (case map_of kw n of None \<Rightarrow> Inl (KeyError n) | Some v \<Rightarrow> emit v (format_scan kw None cs))"
  by simp

lemmas scan = scan_text scan_open2 scan_close2 scan_open scan_name scan_close

lemma get_html_renders:
  \<open>get_html dataframe key buttons = Inr
     (''
  '' @
      (''<div id="'' @ key @ ''" class="colab-df-container">'') @
      ''
    '' @
      format_value (repr_html dataframe) @
      ''
    <div class="colab-df-buttons">
      '' @
      str_join [CHR 0x0A] buttons @
      ''
    </div>
  </div>
  '')\<close>
  by (simp add: get_html_def Let_def str_format_def html_template_def emit_Inr scan
      del: format_scan.simps(2) format_scan.simps(4))

lemma get_button_html_renders:
  \<open>get_button_html data_table_url key = Inr
     (''
  <div class="colab-df-container">
    <button class="colab-df-convert" '' @
      (''onclick="convertToInteractive('' @ [CHR 0x27] @ key @ [CHR 0x27] @ '')"'') @
      ''
            title="Convert this dataframe to an interactive table."
            style="display:none;">
      '' @
      ICON_SVG @
      ''
    </button>
    '' @
      HINT_BUTTON_CSS @
      ''
    <script>
      const buttonEl =
        document.querySelector('#'' @
      key @
      '' button.colab-df-convert');
      buttonEl.style.display =
        google.colab.kernel.accessAllowed ? 'block' : 'none';

      async function convertToInteractive(key) {
        const element = document.querySelector('#'' @
      key @
      ([CHR 0x27] @ '');
        '') @
      ''const dataTable =
          await google.colab.kernel.invokeFunction('convertToInteractive',
                                                    [key], {});'' @
      ''
        if (!dataTable) return;

        const docLinkHtml = 'Like what you see? Visit the ' +
          '<a target="_blank" href='' @
      data_table_url @
      (''>data table notebook</a>'
          + ' to learn more about interactive tables.';
        element.innerHTML = '' @ [CHR 0x27, CHR 0x27] @ '';
        dataTable['output_type'] = 'display_data';
        '') @
      ''await google.colab.output.renderOutput(dataTable, element);'' @
      ''
        const docLink = document.createElement('div');
        docLink.innerHTML = docLinkHtml;
        element.appendChild(docLink);
      }
    </script>
  </div>
  '')\<close>
  by (simp add: get_button_html_def str_format_def button_html_template_def emit_Inr scan
      del: format_scan.simps(2) format_scan.simps(4))

lemma sublist_skip: "sublist xs ys \<Longrightarrow> sublist xs (ps @ ys)"
proof -
  assume "sublist xs ys"
  then obtain ps' ss where "ys = ps' @ xs @ ss"
    by (auto simp: sublist_def)
  then have "ps @ ys = (ps @ ps') @ xs @ ss"
    by simp
  then show ?thesis
    unfolding sublist_def by blast
qed


lemma button_html_parts:
  \<open>\<exists>button. get_button_html data_table_url key = Inr button \<and>
     sublist (''onclick="convertToInteractive('' @ [CHR 0x27] @ key @ [CHR 0x27] @ '')"'') button \<and>
     sublist HINT_BUTTON_CSS button \<and>
     sublist (''const dataTable =
          await google.colab.kernel.invokeFunction('convertToInteractive',
                                                    [key], {});'') button \<and>
     sublist (''await google.colab.output.renderOutput(dataTable, element);'') button\<close>
  unfolding get_button_html_renders
  apply (rule exI, rule conjI, rule refl)
  apply (intro conjI)
     apply (rule sublist_skip, rule sublist_append_rightI)
    apply (rule sublist_skip, rule sublist_skip, rule sublist_skip, rule sublist_skip, rule sublist_skip, rule sublist_append_rightI)
   apply (rule sublist_skip, rule sublist_skip, rule sublist_skip, rule sublist_skip, rule sublist_skip, rule sublist_skip, rule sublist_skip, rule sublist_skip, rule sublist_skip, rule sublist_skip, rule sublist_skip, rule sublist_append_rightI)
  apply (rule sublist_skip, rule sublist_skip, rule sublist_skip, rule sublist_skip, rule sublist_skip, rule sublist_skip, rule sublist_skip, rule sublist_skip, rule sublist_skip, rule sublist_skip, rule sublist_skip, rule sublist_skip, rule sublist_skip, rule sublist_skip, rule sublist_skip, rule sublist_append_rightI)
  done

lemma html_parts:
  \<open>\<exists>html. get_html dataframe key buttons = Inr html \<and>
     sublist (''<div id="'' @ key @ ''" class="colab-df-container">'') html \<and>
     sublist (format_value (repr_html dataframe)) html \<and>
     sublist (str_join [CHR 0x0A] buttons) html\<close>
  unfolding get_html_renders
  apply (rule exI, rule conjI, rule refl)
  apply (intro conjI)
    apply (rule sublist_skip, rule sublist_append_rightI)
   apply (rule sublist_skip, rule sublist_skip, rule sublist_skip, rule sublist_append_rightI)
  apply (rule sublist_skip, rule sublist_skip, rule sublist_skip, rule sublist_skip, rule sublist_skip, rule sublist_append_rightI)
  done

lemma str_join_Cons: "str_join sep (x # xs) = x @ concat (map ((@) sep) xs)"
  by (induction xs arbitrary: x) simp_all

lemma formatter_result:
  assumes "get_button_html url (''df-'' @ u) = Inr button"
    and "get_html df (''df-'' @ u) (button # (case buttons of None \<Rightarrow> [] | Some bs \<Rightarrow> bs)) = Inr html"
  shows "fst (df_formatter_with_interactive_hint url u df buttons s) =
    Inr (html, button # (case buttons of None \<Rightarrow> [] | Some bs \<Rightarrow> bs))"
proof -
  have "(case buttons of None \<Rightarrow> [] | Some bs \<Rightarrow> if bs = [] then [] else bs) =
      (case buttons of None \<Rightarrow> [] | Some bs \<Rightarrow> bs)"
    by (simp split: option.splits)
  with assms show ?thesis
    by (simp add: df_formatter_with_interactive_hint_def Let_def)
qed

subsection \<open>What a call of the formatter leaves in the state\<close>

lemma formatter_last:
  "last_noninteractive_df (snd (df_formatter_with_interactive_hint url u df buttons s)) =
     [(''df-'' @ u, copy_shallow df)]"
  by (simp add: df_formatter_with_interactive_hint_def Let_def register_callback_def
      split: sum.splits)

lemma formatter_refs:
  "noninteractive_df_refs (snd (df_formatter_with_interactive_hint url u df buttons s)) =
     AList.update (''df-'' @ u) df (noninteractive_df_refs s)"
  by (simp add: df_formatter_with_interactive_hint_def Let_def register_callback_def
      split: sum.splits)


lemma copy_shallow_new: "copy_shallow d \<noteq> d"
  by (induction d) (simp_all add: copy_shallow_def)

subsection \<open>What a retrieval does\<close>

lemma get_dataframe_last:
  "map_of (last_noninteractive_df s) key = Some df \<Longrightarrow>
   get_dataframe key s =
     (Some df, s\<lparr>last_noninteractive_df := AList.delete key (last_noninteractive_df s)\<rparr>)"
  by (simp add: get_dataframe_def)

lemma get_dataframe_refs:
  "map_of (last_noninteractive_df s) key = None \<Longrightarrow>
   map_of (noninteractive_df_refs s) key = Some df \<Longrightarrow>
   get_dataframe key s =
     (Some df, s\<lparr>noninteractive_df_refs := AList.delete key (noninteractive_df_refs s)\<rparr>)"
  by (simp add: get_dataframe_def)

lemma get_dataframe_none:
  "map_of (last_noninteractive_df s) key = None \<Longrightarrow>
   map_of (noninteractive_df_refs s) key = None \<Longrightarrow>
   get_dataframe key s = (None, s\<lparr>stdout := stdout s @ [no_reference_message]\<rparr>)"
  by (simp add: get_dataframe_def)

lemma convert_fst:
  "fst (convert_to_interactive key s) = map_option DataTable (fst (get_dataframe key s))"
  by (cases "get_dataframe key s") (auto simp: convert_to_interactive_def split: option.splits)

lemma convert_snd: "snd (convert_to_interactive key s) = snd (get_dataframe key s)"
  by (cases "get_dataframe key s") (auto simp: convert_to_interactive_def split: option.splits)

lemma get_dataframe_last_cases:
  "last_noninteractive_df (snd (get_dataframe key s)) =
     (if map_of (last_noninteractive_df s) key = None then last_noninteractive_df s
      else AList.delete key (last_noninteractive_df s))"
  by (simp add: get_dataframe_def split: option.splits)

lemma enable_last:
  "last_noninteractive_df (enable_df_interactive_hint_formatter s) = last_noninteractive_df s"
  by (simp add: enable_df_interactive_hint_formatter_def Let_def for_type_by_name_def
      split: option.splits)

lemma disable_last:
  "last_noninteractive_df (disable_df_interactive_hint_formatter s) = last_noninteractive_df s"
  by (simp add: disable_df_interactive_hint_formatter_def Let_def for_type_by_name_def
      printers_pop_def split: option.splits)

lemma enable_refs:
  "noninteractive_df_refs (enable_df_interactive_hint_formatter s) = noninteractive_df_refs s"
  by (simp add: enable_df_interactive_hint_formatter_def Let_def for_type_by_name_def
      split: option.splits)

lemma disable_refs:
  "noninteractive_df_refs (disable_df_interactive_hint_formatter s) = noninteractive_df_refs s"
  by (simp add: disable_df_interactive_hint_formatter_def Let_def for_type_by_name_def
      printers_pop_def split: option.splits)

lemma quiet_step_last:
  "\<not> is_format x \<Longrightarrow> \<not> is_retrieval x \<Longrightarrow>
   last_noninteractive_df (step url x s) = last_noninteractive_df s"
  by (cases x) (simp_all add: enable_last disable_last gc_collect_def)

lemma quiet_run_last:
  "list_all (\<lambda>x. \<not> is_format x \<and> \<not> is_retrieval x) xs \<Longrightarrow>
   last_noninteractive_df (run url xs s) = last_noninteractive_df s"
  by (induction xs arbitrary: s) (simp_all add: quiet_step_last)

lemma no_reference_message_text:
  "no_reference_message =
     ''Error: Runtime no longer has a reference to this dataframe, please re-run this cell and try again.''"
  by (simp add: no_reference_message_def)

subsection \<open>The single-entry cache along a sequence of calls\<close>

lemma step_last_length:
  "length (last_noninteractive_df s) \<le> 1 \<Longrightarrow> length (last_noninteractive_df (step url x s)) \<le> 1"
proof (cases x)
  case (Format u df buttons)
  then show ?thesis by (simp add: formatter_last)
next
  case (Get_Dataframe k)
  assume "length (last_noninteractive_df s) \<le> 1"
  moreover have "length (AList.delete k (last_noninteractive_df s)) \<le> length (last_noninteractive_df s)"
    by (rule length_delete_le)
  ultimately show ?thesis using Get_Dataframe by (simp add: get_dataframe_last_cases)
next
  case (Convert k)
  assume "length (last_noninteractive_df s) \<le> 1"
  moreover have "length (AList.delete k (last_noninteractive_df s)) \<le> length (last_noninteractive_df s)"
    by (rule length_delete_le)
  ultimately show ?thesis using Convert by (simp add: convert_snd get_dataframe_last_cases)
qed (simp_all add: enable_last disable_last gc_collect_def)

lemma run_last_length:
  "length (last_noninteractive_df s) \<le> 1 \<Longrightarrow> length (last_noninteractive_df (run url xs s)) \<le> 1"
proof (induction xs arbitrary: s)
  case Nil
  then show ?case by simp
next
  case (Cons x xs)
  from Cons.prems have "length (last_noninteractive_df (step url x s)) \<le> 1"
    by (rule step_last_length)
  then have "length (last_noninteractive_df (run url xs (step url x s))) \<le> 1"
    by (rule Cons.IH)
  then show ?case by simp
qed

lemma track_step:
  assumes "map fst (last_noninteractive_df s) = (case cur of None \<Rightarrow> [] | Some k \<Rightarrow> [k])"
  shows "map fst (last_noninteractive_df (step url x s)) =
     (case track_last cur x of None \<Rightarrow> [] | Some k \<Rightarrow> [k])"
proof (cases x)
  case (Format u df buttons)
  then show ?thesis by (simp add: formatter_last)
next
  case (Get_Dataframe k)
  show ?thesis
  proof (cases cur)
    case None
    with assms Get_Dataframe show ?thesis by (simp add: get_dataframe_last_cases)
  next
    case (Some k')
    with assms obtain d where "last_noninteractive_df s = [(k', d)]" by auto
    with Some Get_Dataframe show ?thesis by (simp add: get_dataframe_last_cases)
  qed
next
  case (Convert k)
  show ?thesis
  proof (cases cur)
    case None
    with assms Convert show ?thesis by (simp add: convert_snd get_dataframe_last_cases)
  next
    case (Some k')
    with assms obtain d where "last_noninteractive_df s = [(k', d)]" by auto
    with Some Convert show ?thesis by (simp add: convert_snd get_dataframe_last_cases)
  qed
qed (use assms in \<open>simp_all add: enable_last disable_last gc_collect_def\<close>)

lemma track_run:
  "map fst (last_noninteractive_df s) = (case cur of None \<Rightarrow> [] | Some k \<Rightarrow> [k]) \<Longrightarrow>
   get_last_dataframe_key (run url xs s) = foldl track_last cur xs"
proof (induction xs arbitrary: s cur)
  case Nil
  then show ?case by (simp add: get_last_dataframe_key_def split: option.splits)
next
  case (Cons x xs)
  from Cons.prems
  have "map fst (last_noninteractive_df (step url x s)) =
     (case track_last cur x of None \<Rightarrow> [] | Some k \<Rightarrow> [k])"
    by (rule track_step)
  then have "get_last_dataframe_key (run url xs (step url x s)) = foldl track_last (track_last cur x) xs"
    by (rule Cons.IH)
  then show ?case by simp
qed

subsection \<open>The number of caches that hold a key\<close>

lemma map_of_delete_same: "map_of (AList.delete k xs) k = None"
  by (simp add: delete_conv')

lemma map_of_filter_None: "map_of xs k = None \<Longrightarrow> map_of (filter P xs) k = None"
  by (induction xs) (auto split: if_splits)

lemma get_dataframe_holders:
  "(if k = key \<and> fst (get_dataframe k s) \<noteq> None then 1 else 0) +
     holders key (snd (get_dataframe k s)) \<le> holders key s"
  by (cases "k = key")
     (auto simp: holders_def get_dataframe_def map_of_delete_same split: option.splits)

lemma gc_holders: "holders key (gc_collect dead s) \<le> holders key s"
  by (simp add: holders_def gc_collect_def map_of_filter_None)

lemma step_holders:
  "\<not> is_format x \<Longrightarrow>
   (if succeeds key x s then 1 else 0) + holders key (step url x s) \<le> holders key s"
proof (cases x)
  case (Get_Dataframe k)
  then show ?thesis using get_dataframe_holders [of k key s] by simp
next
  case (Convert k)
  then show ?thesis using get_dataframe_holders [of k key s]
    by (simp add: convert_fst convert_snd)
next
  case (Collect dead)
  then show ?thesis using gc_holders [of key dead s] by simp
qed (simp_all add: holders_def enable_last enable_refs disable_last disable_refs)

lemma retrievals_holders:
  "list_all (\<lambda>x. \<not> is_format x) xs \<Longrightarrow> retrievals url key xs s \<le> holders key s"
proof (induction xs arbitrary: s)
  case Nil
  then show ?case by simp
next
  case (Cons x xs)
  then have "retrievals url key xs (step url x s) \<le> holders key (step url x s)"
    by simp
  moreover from Cons.prems
  have "(if succeeds key x s then 1 else 0) + holders key (step url x s) \<le> holders key s"
    by (simp add: step_holders)
  ultimately show ?case by simp
qed

subsection \<open>Enabling and disabling\<close>

lemma delete_update_fresh:
  "map_of xs k = None \<Longrightarrow> AList.delete k (AList.update k v xs) = xs"
  by (simp add: delete_update_same map_of_eq_None_iff)

lemma enable_no_shell:
  "ipython s = None \<Longrightarrow> enable_df_interactive_hint_formatter s = s"
  by (simp add: enable_df_interactive_hint_formatter_def)

lemma disable_no_shell:
  "ipython s = None \<Longrightarrow> disable_df_interactive_hint_formatter s = s"
  by (simp add: disable_df_interactive_hint_formatter_def)

lemma enable_already:
  "map_of (original_formatters s) ''text/html'' = Some saved \<Longrightarrow>
   enable_df_interactive_hint_formatter s = s"
  by (simp add: enable_df_interactive_hint_formatter_def split: option.splits)

lemma enable_fresh:
  "ipython s = Some shell \<Longrightarrow> map_of (original_formatters s) ''text/html'' = None \<Longrightarrow>
   enable_df_interactive_hint_formatter s =
     s\<lparr>original_formatters :=
          AList.update ''text/html'' (text_html shell ''pandas.core.frame.DataFrame'')
            (original_formatters s),
       ipython := Some (shell\<lparr>text_html :=
          (text_html shell)(''pandas.core.frame.DataFrame'' \<mapsto> Df_Formatter_With_Interactive_Hint)\<rparr>)\<rparr>"
  by (simp add: enable_df_interactive_hint_formatter_def for_type_by_name_def Let_def)



lemma restore_printers:
  "(case p k of None \<Rightarrow> p(k := None) | Some f \<Rightarrow> (p(k := None))(k \<mapsto> f)) = p"
  by (cases "p k") (auto simp: fun_upd_idem)

lemma disable_enable:
  assumes "map_of (original_formatters s) ''text/html'' = None"
  shows "disable_df_interactive_hint_formatter (enable_df_interactive_hint_formatter s) = s"
proof (cases "ipython s")
  case None
  then show ?thesis by (simp add: enable_no_shell disable_no_shell)
next
  case (Some shell)
  have "disable_df_interactive_hint_formatter (enable_df_interactive_hint_formatter s) =
      s\<lparr>original_formatters := original_formatters s, ipython := Some shell\<rparr>"
    using assms Some
    by (simp add: enable_fresh disable_df_interactive_hint_formatter_def update_conv'
        printers_pop_def for_type_by_name_def delete_update_fresh restore_printers)
  also have "\<dots> = s"
    using Some by (cases s) simp
  finally show ?thesis .
qed

lemma disable_enabled:
  assumes "ipython s = Some shell"
    and "map_of (original_formatters s) ''text/html'' = Some saved"
  shows "disable_df_interactive_hint_formatter s =
     s\<lparr>original_formatters := AList.delete ''text/html'' (original_formatters s),
       ipython := Some (shell\<lparr>text_html :=
          (text_html shell)(''pandas.core.frame.DataFrame'' := saved)\<rparr>)\<rparr>"
proof -
  have "(case saved of
          None \<Rightarrow> (text_html shell)(''pandas.core.frame.DataFrame'' := None)
        | Some f \<Rightarrow> ((text_html shell)(''pandas.core.frame.DataFrame'' := None))
            (''pandas.core.frame.DataFrame'' \<mapsto> f)) =
      (text_html shell)(''pandas.core.frame.DataFrame'' := saved)"
    by (cases saved) simp_all
  with assms show ?thesis
    by (simp add: disable_df_interactive_hint_formatter_def Let_def printers_pop_def
        for_type_by_name_def)
qed

section \<open>The claims\<close>

subsection \<open>The two caches\<close>

text \<open>
  C1: a dataframe formatted under the key \<open>''df-'' @ u\<close> is retrieved by a later
  \<open>convert_to_interactive\<close> of that key, whatever is called in between (\<open>xs\<close>) as long as it
  is neither a format nor a retrieval: enabling, disabling, asking for the last key, steps
  of the garbage collector. The call returns a \<open>DataTable\<close> wrapping the reference stored
  under the key in \<open>last_noninteractive_df\<close>, which is the shallow copy of the dataframe.
\<close>

theorem convert_after_format:
  assumes "list_all (\<lambda>x. \<not> is_format x \<and> \<not> is_retrieval x) xs"
  shows "fst (convert_to_interactive (''df-'' @ u)
          (run url xs (snd (df_formatter_with_interactive_hint url u df buttons s))))
     = Some (DataTable (copy_shallow df)) \<and>
   map_of (last_noninteractive_df (snd (df_formatter_with_interactive_hint url u df buttons s)))
     (''df-'' @ u) = Some (copy_shallow df)"
proof -
  let ?s' = "snd (df_formatter_with_interactive_hint url u df buttons s)"
  have stored: "map_of (last_noninteractive_df ?s') (''df-'' @ u) = Some (copy_shallow df)"
    by (simp add: formatter_last)
  from assms have "last_noninteractive_df (run url xs ?s') = last_noninteractive_df ?s'"
    by (rule quiet_run_last)
  with stored have "map_of (last_noninteractive_df (run url xs ?s')) (''df-'' @ u)
      = Some (copy_shallow df)"
    by simp
  then have "fst (get_dataframe (''df-'' @ u) (run url xs ?s')) = Some (copy_shallow df)"
    by (simp add: get_dataframe_last)
  then have "fst (convert_to_interactive (''df-'' @ u) (run url xs ?s'))
      = Some (DataTable (copy_shallow df))"
    by (simp add: convert_fst)
  with stored show ?thesis by simp
qed

theorem convert_after_format_witness:
  "fst (convert_to_interactive (''df-'' @ ''1'')
          (run [] [Enable, Get_Last_Key, Collect [DataFrame 0 (Some ''<table/>'')], Disable]
             (snd (df_formatter_with_interactive_hint [] ''1'' (DataFrame 0 (Some ''<table/>''))
                     None (initial_state (Some shell_with_formatter))))))
     = Some (DataTable (copy_shallow (DataFrame 0 (Some ''<table/>''))))"
proof -
  have quiet: "list_all (\<lambda>x. \<not> is_format x \<and> \<not> is_retrieval x)
      [Enable, Get_Last_Key, Collect [DataFrame 0 (Some ''<table/>'')], Disable]"
    by simp
  from convert_after_format [OF quiet] show ?thesis
    by (rule conjunct1)
qed

text \<open>
  C5: a call of the formatter with the random identifier \<open>u\<close> uses the key \<open>''df-'' @ u\<close>;
  under that key the weak-value cache \<open>noninteractive_df_refs\<close> holds the dataframe object
  itself, and the single-entry cache \<open>last_noninteractive_df\<close> holds a shallow copy of it: a
  different object with the same data.
\<close>

theorem formatter_stores_dataframe_and_copy:
  "map_of (noninteractive_df_refs (snd (df_formatter_with_interactive_hint url u df buttons s)))
     (''df-'' @ u) = Some df \<and>
   last_noninteractive_df (snd (df_formatter_with_interactive_hint url u df buttons s)) =
     [(''df-'' @ u, copy_shallow df)] \<and>
   copy_shallow df \<noteq> df \<and>
   repr_html (copy_shallow df) = repr_html df"
  by (simp add: formatter_last formatter_refs update_conv' copy_shallow_new)
     (simp add: copy_shallow_def)

text \<open>
  C3: \<open>last_noninteractive_df\<close> is a single-entry cache. After any sequence of calls of the
  module (and steps of the garbage collector) since the import it holds at most one entry,
  and right after a call of the formatter, from any state, it holds exactly one entry, under
  the key that call generated.
\<close>

theorem last_noninteractive_df_single_entry:
  "length (last_noninteractive_df (run url xs (initial_state shell))) \<le> 1 \<and>
   last_noninteractive_df (snd (df_formatter_with_interactive_hint url u df buttons s)) =
     [(''df-'' @ u, copy_shallow df)]"
proof
  have "length (last_noninteractive_df (initial_state shell)) \<le> 1"
    by (simp add: initial_state_def)
  then show "length (last_noninteractive_df (run url xs (initial_state shell))) \<le> 1"
    by (rule run_last_length)
next
  show "last_noninteractive_df (snd (df_formatter_with_interactive_hint url u df buttons s)) =
     [(''df-'' @ u, copy_shallow df)]"
    by (rule formatter_last)
qed

text \<open>
  C8: for a key that neither cache holds, \<open>get_dataframe\<close> prints the error message and
  returns None, \<open>convert_to_interactive\<close> returns None as well (no \<open>DataTable\<close> is built),
  and the state differs from the one before only in what was printed: both caches are as
  they were.
\<close>

theorem missing_key_prints_error:
  assumes "map_of (last_noninteractive_df s) key = None"
    and "map_of (noninteractive_df_refs s) key = None"
  shows "get_dataframe key s =
      (None, s\<lparr>stdout := stdout s @
        [''Error: Runtime no longer has a reference to this dataframe, please re-run this cell and try again.'']\<rparr>) \<and>
    convert_to_interactive key s =
      (None, s\<lparr>stdout := stdout s @
        [''Error: Runtime no longer has a reference to this dataframe, please re-run this cell and try again.'']\<rparr>) \<and>
    last_noninteractive_df (snd (convert_to_interactive key s)) = last_noninteractive_df s \<and>
    noninteractive_df_refs (snd (convert_to_interactive key s)) = noninteractive_df_refs s"
proof -
  have g: "get_dataframe key s = (None, s\<lparr>stdout := stdout s @ [no_reference_message]\<rparr>)"
    using assms by (rule get_dataframe_none)
  then have c: "convert_to_interactive key s = (None, s\<lparr>stdout := stdout s @ [no_reference_message]\<rparr>)"
    by (simp add: convert_to_interactive_def)
  from g c show ?thesis
    by (simp add: no_reference_message_text)
qed

theorem missing_key_prints_error_witness:
  "get_dataframe ''df-1'' (initial_state None) =
      (None, (initial_state None)\<lparr>stdout :=
        [''Error: Runtime no longer has a reference to this dataframe, please re-run this cell and try again.'']\<rparr>) \<and>
   convert_to_interactive ''df-1'' (initial_state None) =
      (None, (initial_state None)\<lparr>stdout :=
        [''Error: Runtime no longer has a reference to this dataframe, please re-run this cell and try again.'']\<rparr>)"
  using missing_key_prints_error [of "initial_state None" "''df-1''"]
  by (simp add: initial_state_def)

text \<open>
  C9: retrieval is destructive. A key held by \<open>last_noninteractive_df\<close> is popped from that
  cache, and \<open>noninteractive_df_refs\<close> is left as it is; a key held only by
  \<open>noninteractive_df_refs\<close> is popped from there, and \<open>last_noninteractive_df\<close> is left as it
  is; after the pop the cache no longer holds the key. Hence over any sequence of calls
  without a call of the formatter, at most two retrievals of one key return a dataframe.
\<close>

theorem retrieval_is_destructive:
  "(\<forall>df. map_of (last_noninteractive_df s) key = Some df \<longrightarrow>
      get_dataframe key s =
        (Some df, s\<lparr>last_noninteractive_df := AList.delete key (last_noninteractive_df s)\<rparr>)) \<and>
   (\<forall>df. map_of (last_noninteractive_df s) key = None \<and>
         map_of (noninteractive_df_refs s) key = Some df \<longrightarrow>
      get_dataframe key s =
        (Some df, s\<lparr>noninteractive_df_refs := AList.delete key (noninteractive_df_refs s)\<rparr>)) \<and>
   map_of (AList.delete key (last_noninteractive_df s)) key = None \<and>
   map_of (AList.delete key (noninteractive_df_refs s)) key = None \<and>
   (list_all (\<lambda>x. \<not> is_format x) xs \<longrightarrow> retrievals url key xs s \<le> 2)"
proof -
  have "retrievals url key xs s \<le> 2" if "list_all (\<lambda>x. \<not> is_format x) xs"
  proof -
    have "retrievals url key xs s \<le> holders key s"
      using that by (rule retrievals_holders)
    also have "holders key s \<le> 2"
      by (simp add: holders_def)
    finally show ?thesis .
  qed
  then show ?thesis
    by (simp add: get_dataframe_last get_dataframe_refs map_of_delete_same)
qed

theorem retrieval_is_destructive_witness:
  "get_dataframe ''df-1'' two_cache_state =
     (Some (Shallow_Copy (DataFrame 0 (Some ''<table/>''))),
      two_cache_state\<lparr>last_noninteractive_df := []\<rparr>) \<and>
   get_dataframe ''df-1'' (two_cache_state\<lparr>last_noninteractive_df := []\<rparr>) =
     (Some (DataFrame 0 (Some ''<table/>'')),
      two_cache_state\<lparr>last_noninteractive_df := [], noninteractive_df_refs := []\<rparr>) \<and>
   retrievals [] ''df-1''
     [Get_Dataframe ''df-1'', Collect [], Convert ''df-1'', Get_Dataframe ''df-1'', Convert ''df-1'']
     two_cache_state \<le> 2"
  using retrieval_is_destructive [of two_cache_state "''df-1''"
      "[Get_Dataframe ''df-1'', Collect [], Convert ''df-1'', Get_Dataframe ''df-1'', Convert ''df-1'']" "[]"]
    retrieval_is_destructive [of "two_cache_state\<lparr>last_noninteractive_df := []\<rparr>" "''df-1''" "[]" "[]"]
  by (simp add: two_cache_state_def initial_state_def get_dataframe_def convert_to_interactive_def
      gc_collect_def)

text \<open>
  C10: \<open>get_last_dataframe_key\<close> returns the key of the single entry of
  \<open>last_noninteractive_df\<close> and None when that cache is empty. After any sequence of calls
  since the import that is the key the spec expects: the key of the most recently formatted
  dataframe, or None when none was formatted or the last one has been retrieved.
\<close>

theorem get_last_dataframe_key_is_last_formatted:
  "get_last_dataframe_key (run url xs (initial_state shell)) = last_formatted_key xs \<and>
   get_last_dataframe_key (snd (df_formatter_with_interactive_hint url u df buttons s)) =
     Some (''df-'' @ u) \<and>
   get_last_dataframe_key (s\<lparr>last_noninteractive_df := [(k, d)]\<rparr>) = Some k \<and>
   get_last_dataframe_key (s\<lparr>last_noninteractive_df := []\<rparr>) = None"
proof -
  have "map fst (last_noninteractive_df (initial_state shell)) =
      (case None of None \<Rightarrow> [] | Some k \<Rightarrow> [k])"
    by (simp add: initial_state_def)
  then have "get_last_dataframe_key (run url xs (initial_state shell)) = foldl track_last None xs"
    by (rule track_run)
  then show ?thesis
    by (simp add: last_formatted_key_def get_last_dataframe_key_def formatter_last)
qed

subsection \<open>The emitted HTML\<close>




text \<open>
  C7: the hint button is put at position 0 of the buttons list, so in the returned HTML it
  comes before every button the caller supplied; and the key in the container's
  \<^verbatim>\<open>id\<close> and in the button's \<^verbatim>\<open>onclick\<close> is the key under which the two caches hold the
  dataframe and its copy.
\<close>

theorem hint_button_first_with_stored_key:
  \<open>\<exists>html button.
     fst (df_formatter_with_interactive_hint url u df buttons s) =
       Inr (html, button # (case buttons of None \<Rightarrow> [] | Some bs \<Rightarrow> bs)) \<and>
     get_button_html url (''df-'' @ u) = Inr button \<and>
     sublist (button @ concat (map ((@) [CHR 0x0A]) (case buttons of None \<Rightarrow> [] | Some bs \<Rightarrow> bs)))
       html \<and>
     sublist (''<div id="'' @ (''df-'' @ u) @ ''" class="colab-df-container">'') html \<and>
     sublist (''onclick="convertToInteractive('' @ [CHR 0x27] @ (''df-'' @ u) @ [CHR 0x27] @ '')"'')
       button \<and>
     map_of (noninteractive_df_refs (snd (df_formatter_with_interactive_hint url u df buttons s)))
       (''df-'' @ u) = Some df \<and>
     map_of (last_noninteractive_df (snd (df_formatter_with_interactive_hint url u df buttons s)))
       (''df-'' @ u) = Some (copy_shallow df)\<close>
proof -
  let ?bs = "case buttons of None \<Rightarrow> [] | Some bs \<Rightarrow> bs"
  let ?s' = "snd (df_formatter_with_interactive_hint url u df buttons s)"
  from button_html_parts [of url "''df-'' @ u"]
  obtain button where button: "get_button_html url (''df-'' @ u) = Inr button"
    and onclick:
      \<open>sublist (''onclick="convertToInteractive('' @ [CHR 0x27] @ (''df-'' @ u) @ [CHR 0x27] @ '')"'')
         button\<close>
    by (elim exE conjE)
  from html_parts [of df "''df-'' @ u" "button # ?bs"]
  obtain html where html: "get_html df (''df-'' @ u) (button # ?bs) = Inr html"
    and container: \<open>sublist (''<div id="'' @ (''df-'' @ u) @ ''" class="colab-df-container">'') html\<close>
    and joined: "sublist (str_join [CHR 0x0A] (button # ?bs)) html"
    by (elim exE conjE)
  from joined have first: "sublist (button @ concat (map ((@) [CHR 0x0A]) ?bs)) html"
    unfolding str_join_Cons .
  from button html
  have result: "fst (df_formatter_with_interactive_hint url u df buttons s) = Inr (html, button # ?bs)"
    by (rule formatter_result)
  have weak: "map_of (noninteractive_df_refs ?s') (''df-'' @ u) = Some df"
    by (simp add: formatter_refs update_conv')
  have strong: "map_of (last_noninteractive_df ?s') (''df-'' @ u) = Some (copy_shallow df)"
    by (simp add: formatter_last)
  from result button first container onclick weak strong
  show ?thesis by (intro exI conjI)
qed

subsection \<open>The formatter hook\<close>

text \<open>
  C2: from every state. Outside IPython neither call does anything. Inside IPython, when the
  hint formatter is not enabled (\<open>original_formatters\<close> has no entry for \<^verbatim>\<open>text/html\<close>),
  enabling registers \<open>Df_Formatter_With_Interactive_Hint\<close> for
  \<^verbatim>\<open>pandas.core.frame.DataFrame\<close> and saves what was registered before (None when nothing
  was), and disabling afterwards gives back the whole state before the enable. When it is
  enabled already, enabling changes nothing, and disabling afterwards leaves registered for
  dataframes exactly the saved original (nothing, when None was saved), the other types as
  they were, and no saved entry: enable followed by disable restores the original formatter.
\<close>

theorem enable_disable_round_trip:
  "(case ipython s of
      None \<Rightarrow>
        enable_df_interactive_hint_formatter s = s \<and>
        disable_df_interactive_hint_formatter (enable_df_interactive_hint_formatter s) = s
    | Some shell \<Rightarrow>
        (case map_of (original_formatters s) ''text/html'' of
           None \<Rightarrow>
             ipython (enable_df_interactive_hint_formatter s) =
               Some (shell\<lparr>text_html :=
                 (text_html shell)(''pandas.core.frame.DataFrame'' \<mapsto>
                    Df_Formatter_With_Interactive_Hint)\<rparr>) \<and>
             map_of (original_formatters (enable_df_interactive_hint_formatter s)) ''text/html'' =
               Some (text_html shell ''pandas.core.frame.DataFrame'') \<and>
             disable_df_interactive_hint_formatter (enable_df_interactive_hint_formatter s) = s
         | Some saved \<Rightarrow>
             enable_df_interactive_hint_formatter s = s \<and>
             ipython (disable_df_interactive_hint_formatter
                 (enable_df_interactive_hint_formatter s)) =
               Some (shell\<lparr>text_html :=
                 (text_html shell)(''pandas.core.frame.DataFrame'' := saved)\<rparr>) \<and>
             map_of (original_formatters (disable_df_interactive_hint_formatter
                 (enable_df_interactive_hint_formatter s))) ''text/html'' = None))"
proof (cases "ipython s")
  case None
  then show ?thesis
    by (simp add: enable_no_shell disable_no_shell)
next
  case shell: (Some shell)
  show ?thesis
  proof (cases "map_of (original_formatters s) ''text/html''")
    case None
    then have round_trip:
      "disable_df_interactive_hint_formatter (enable_df_interactive_hint_formatter s) = s"
      by (rule disable_enable)
    from shell None
    have registered: "ipython (enable_df_interactive_hint_formatter s) =
        Some (shell\<lparr>text_html :=
          (text_html shell)(''pandas.core.frame.DataFrame'' \<mapsto>
             Df_Formatter_With_Interactive_Hint)\<rparr>)"
      and saved: "map_of (original_formatters (enable_df_interactive_hint_formatter s)) ''text/html'' =
        Some (text_html shell ''pandas.core.frame.DataFrame'')"
      by (simp_all add: enable_fresh update_conv')
    from shell None registered saved round_trip show ?thesis
      by simp
  next
    case (Some saved)
    then have "enable_df_interactive_hint_formatter s = s"
      by (rule enable_already)
    with shell Some show ?thesis
      by (simp add: disable_enabled map_of_delete_same)
  qed
qed

theorem enable_disable_round_trip_witness:
  "disable_df_interactive_hint_formatter
     (enable_df_interactive_hint_formatter (initial_state (Some shell_with_formatter))) =
     initial_state (Some shell_with_formatter) \<and>
   map_of (original_formatters
       (enable_df_interactive_hint_formatter (initial_state (Some shell_with_formatter)))) ''text/html'' =
     Some (Some (Other_Formatter 7)) \<and>
   enable_df_interactive_hint_formatter enabled_state = enabled_state \<and>
   ipython (disable_df_interactive_hint_formatter
       (enable_df_interactive_hint_formatter enabled_state)) =
     Some shell_with_formatter"
proof -
  have fresh: "ipython (initial_state (Some shell_with_formatter)) = Some shell_with_formatter"
    "map_of (original_formatters (initial_state (Some shell_with_formatter))) ''text/html'' = None"
    "text_html shell_with_formatter ''pandas.core.frame.DataFrame'' = Some (Other_Formatter 7)"
    by (simp_all add: initial_state_def shell_with_formatter_def)
  have enabled: "ipython enabled_state =
      Some \<lparr>text_html =
        [''pandas.core.frame.DataFrame'' \<mapsto> Df_Formatter_With_Interactive_Hint,
         ''builtins.int'' \<mapsto> Other_Formatter 8]\<rparr>"
    "map_of (original_formatters enabled_state) ''text/html'' = Some (Some (Other_Formatter 7))"
    by (simp_all add: enabled_state_def initial_state_def)
  note not_enabled = enable_disable_round_trip
    [of "initial_state (Some shell_with_formatter)", unfolded fresh(1,2) option.case]
  note already_enabled = enable_disable_round_trip
    [of enabled_state, unfolded enabled option.case]
  have round_trip: "disable_df_interactive_hint_formatter
      (enable_df_interactive_hint_formatter (initial_state (Some shell_with_formatter))) =
      initial_state (Some shell_with_formatter)"
    by (rule not_enabled [THEN conjunct2, THEN conjunct2])
  have saved: "map_of (original_formatters
      (enable_df_interactive_hint_formatter (initial_state (Some shell_with_formatter))))
      ''text/html'' = Some (Some (Other_Formatter 7))"
    using not_enabled [THEN conjunct2, THEN conjunct1] by (simp only: fresh(3))
  have unchanged: "enable_df_interactive_hint_formatter enabled_state = enabled_state"
    by (rule already_enabled [THEN conjunct1])
  have restored: "ipython (disable_df_interactive_hint_formatter
      (enable_df_interactive_hint_formatter enabled_state)) = Some shell_with_formatter"
    using already_enabled [THEN conjunct2, THEN conjunct1]
    by (simp add: shell_with_formatter_def fun_upd_twist)
  from round_trip saved unchanged restored show ?thesis
    by (intro conjI)
qed



end
